theory Spec2Isabelle
  imports Main "HOL-Library.Multiset"
begin

section \<open>Python values\<close>

text \<open>
  \<^verbatim>\<open>company_analyzer.py\<close> is dynamically typed: what \<^verbatim>\<open>json.loads\<close> returns flows
  unchecked into \<^verbatim>\<open>+\<close>, \<^verbatim>\<open>set(...)\<close>, \<^verbatim>\<open>", ".join(...)\<close> and \<^verbatim>\<open>==\<close>. The values
  are therefore modelled as one datatype, and every operation that raises in Python
  returns the exception as a value. JSON numbers with a fraction or an exponent
  (Python floats) are outside the model. A dict is an association list in insertion
  order.
\<close>

datatype pyval =
    PyNone
  | PyBool bool
  | PyInt int
  | PyStr string
  | PyList "pyval list"
  | PyDict "(string \<times> pyval) list"

type_synonym dict = "(string \<times> pyval) list"

datatype exn = TypeError | KeyError | AttributeError

text \<open>Truth value testing (\<^verbatim>\<open>if x:\<close>, \<^verbatim>\<open>not x\<close>).\<close>

fun truthy :: "pyval \<Rightarrow> bool" where
  "truthy PyNone = False"
| "truthy (PyBool b) = b"
| "truthy (PyInt i) = (i \<noteq> 0)"
| "truthy (PyStr s) = (s \<noteq> [])"
| "truthy (PyList xs) = (xs \<noteq> [])"
| "truthy (PyDict kvs) = (kvs \<noteq> [])"

text \<open>\<^verbatim>\<open>d.get(k, default)\<close> and \<^verbatim>\<open>d[k]\<close> on a dict.\<close>

definition dict_get :: "dict \<Rightarrow> string \<Rightarrow> pyval \<Rightarrow> pyval" where
  "dict_get d k dflt = (case map_of d k of None \<Rightarrow> dflt | Some v \<Rightarrow> v)"

definition dict_item :: "dict \<Rightarrow> string \<Rightarrow> exn + pyval" where
  "dict_item d k = (case map_of d k of None \<Rightarrow> Inl KeyError | Some v \<Rightarrow> Inr v)"

text \<open>
  \<^verbatim>\<open>hash(x)\<close> succeeds on \<^verbatim>\<open>None\<close>, booleans, integers and strings; lists and dicts
  are unhashable.
\<close>

fun hashable :: "pyval \<Rightarrow> bool" where
  "hashable (PyList xs) = False"
| "hashable (PyDict kvs) = False"
| "hashable v = True"

text \<open>
  \<^verbatim>\<open>set(x)\<close>: the elements of a list (all of them must be hashable), the one-character
  strings of a string, the keys of a dict; anything else is not iterable. The result
  is used for membership tests of string constants only, and a string is equal to no
  value but the same string, so the set of the model is the set of the elements.
\<close>

fun py_set :: "pyval \<Rightarrow> exn + pyval set" where
  "py_set (PyList xs) = (if list_all hashable xs then Inr (set xs) else Inl TypeError)"
| "py_set (PyStr s) = Inr (set (map (\<lambda>c. PyStr [c]) s))"
| "py_set (PyDict kvs) = Inr (set (map (\<lambda>kv. PyStr (fst kv)) kvs))"
| "py_set v = Inl TypeError"

section \<open>Team Assignment Resolver\<close>

text \<open>
  \<^verbatim>\<open>get_team_assignment(sectors)\<close>, lines 79 to 97. The argument is whatever the caller
  computed as \<^verbatim>\<open>all_sectors\<close>; \<^verbatim>\<open>set(sectors)\<close> can raise.
\<close>

definition get_team_assignment :: "pyval \<Rightarrow> exn + string" where
  "get_team_assignment sectors =
     (if \<not> truthy sectors then Inr ''To be assigned''
      else
        case py_set sectors of
          Inl e \<Rightarrow> Inl e
        | Inr sector_set \<Rightarrow>
            Inr (if {PyStr ''K-12'', PyStr ''Higher Education''} \<subseteq> sector_set then ''Mitch''
                 else if {PyStr ''Workforce Learning'', PyStr ''Corporate Development''} \<subseteq> sector_set
                   then ''Sam''
                 else if PyStr ''K-12'' \<in> sector_set \<or> PyStr ''Higher Education'' \<in> sector_set
                   then ''Mitch''
                 else if PyStr ''Workforce Learning'' \<in> sector_set
                       \<or> PyStr ''Corporate Development'' \<in> sector_set
                   then ''Sam''
                 else ''To be assigned''))"

text \<open>A collection of sector label strings, as a Python list of strings.\<close>

definition labels :: "string list \<Rightarrow> pyval" where
  "labels xs = PyList (map PyStr xs)"

text \<open>
  The resolver with rules 2 and 3 removed, following the words of the specification:
  empty check, then the K-12 / Higher Education membership rule, then the Workforce
  Learning / Corporate Development membership rule, then the default.
\<close>

definition simplified_resolver :: "string list \<Rightarrow> string" where
  "simplified_resolver xs =
     (if xs = [] then ''To be assigned''
      else if ''K-12'' \<in> set xs \<or> ''Higher Education'' \<in> set xs then ''Mitch''
      else if ''Workforce Learning'' \<in> set xs \<or> ''Corporate Development'' \<in> set xs then ''Sam''
      else ''To be assigned'')"

section \<open>String operations\<close>

text \<open>
  \<^verbatim>\<open>s.find(c)\<close> and \<^verbatim>\<open>s.rfind(c)\<close> for a one-character \<^verbatim>\<open>c\<close>: the index of the first
  and of the last occurrence, or -1.
\<close>

definition str_find :: "string \<Rightarrow> char \<Rightarrow> int" where
  "str_find s c = (if c \<in> set s then int (length (takeWhile (\<lambda>x. x \<noteq> c) s)) else - 1)"

definition str_rfind :: "string \<Rightarrow> char \<Rightarrow> int" where
  "str_rfind s c =
     (if c \<in> set s then int (length s) - 1 - int (length (takeWhile (\<lambda>x. x \<noteq> c) (rev s)))
      else - 1)"

text \<open>
  \<^verbatim>\<open>xs[start:stop]\<close>: a negative bound counts from the end, every bound is clipped to
  the length, and the slice is empty when the bounds cross. \<^verbatim>\<open>xs[start:]\<close> runs to the
  end.
\<close>

definition slice_index :: "int \<Rightarrow> nat \<Rightarrow> nat" where
  "slice_index i n = (if i < 0 then nat (max 0 (i + int n)) else min (nat i) n)"

definition py_slice :: "'a list \<Rightarrow> int \<Rightarrow> int \<Rightarrow> 'a list" where
  "py_slice xs start stop =
     (let a = slice_index start (length xs); b = slice_index stop (length xs)
      in take (b - a) (drop a xs))"


section \<open>The JSON library\<close>

text \<open>
  \<^verbatim>\<open>json.loads\<close> belongs to the Python library, not to the program, so the model takes
  it as a parameter \<open>loads\<close>: \<open>None\<close> when it raises, the parsed dict otherwise. The
  program only ever hands it a text that is empty, is a lone closing brace or starts
  with an opening brace, and on such a text the library returns a dict whenever it
  returns.

  For the examples the parameter is instantiated with \<open>json_loads\<close> below, a reader
  for the JSON texts made of objects, arrays, strings with the one-character escapes,
  integers, \<^verbatim>\<open>true\<close>, \<^verbatim>\<open>false\<close> and \<^verbatim>\<open>null\<close>. It rejects every other text. A repeated
  key keeps its first position and takes the last value, as a Python dict does.
\<close>

definition is_ws :: "char \<Rightarrow> bool" where
  "is_ws c = (c = CHR '' '' \<or> c = CHR 0x09 \<or> c = CHR 0x0A \<or> c = CHR 0x0D)"

definition skip_ws :: "string \<Rightarrow> string" where
  "skip_ws s = dropWhile is_ws s"

definition unescape :: "char \<Rightarrow> char option" where
  "unescape e =
     (if e = CHR 0x22 then Some (CHR 0x22)
      else if e = CHR 0x5C then Some (CHR 0x5C)
      else if e = CHR ''/'' then Some (CHR ''/'')
      else if e = CHR ''b'' then Some (CHR 0x08)
      else if e = CHR ''f'' then Some (CHR 0x0C)
      else if e = CHR ''n'' then Some (CHR 0x0A)
      else if e = CHR ''r'' then Some (CHR 0x0D)
      else if e = CHR ''t'' then Some (CHR 0x09)
      else None)"

fun read_chars :: "string \<Rightarrow> string \<Rightarrow> (string \<times> string) option" where
  "read_chars [] acc = None"
| "read_chars (c # cs) acc =
     (if c = CHR 0x22 then Some (rev acc, cs)
      else if c = CHR 0x5C then
        (case cs of
           [] \<Rightarrow> None
         | e # cs' \<Rightarrow>
             (case unescape e of None \<Rightarrow> None | Some ch \<Rightarrow> read_chars cs' (ch # acc)))
      else if of_char c < (0x20 :: nat) then None
      else read_chars cs (c # acc))"

definition is_digit :: "char \<Rightarrow> bool" where
  "is_digit c = (48 \<le> (of_char c :: nat) \<and> (of_char c :: nat) \<le> 57)"

definition digits_value :: "string \<Rightarrow> int" where
  "digits_value ds = foldl (\<lambda>a c. 10 * a + (of_char c - 48)) 0 ds"

definition read_int :: "string \<Rightarrow> (pyval \<times> string) option" where
  "read_int s =
     (let neg = (case s of [] \<Rightarrow> False | c # r \<Rightarrow> c = CHR ''-'');
          r = (if neg then tl s else s);
          ds = takeWhile is_digit r;
          rest = dropWhile is_digit r
      in if ds = [] then None
         else if hd ds = CHR ''0'' \<and> 1 < length ds then None
         else if rest \<noteq> [] \<and> hd rest \<in> {CHR ''.'', CHR ''e'', CHR ''E''} then None
         else Some (PyInt (if neg then - digits_value ds else digits_value ds), rest))"

fun dict_set :: "dict \<Rightarrow> string \<Rightarrow> pyval \<Rightarrow> dict" where
  "dict_set [] k v = [(k, v)]"
| "dict_set (kv # d) k v = (if fst kv = k then (k, v) # d else kv # dict_set d k v)"

text \<open>The first argument bounds the number of nested calls; the length of the text is enough.\<close>

fun read_value :: "nat \<Rightarrow> string \<Rightarrow> (pyval \<times> string) option"
  and read_members :: "nat \<Rightarrow> string \<Rightarrow> dict \<Rightarrow> (pyval \<times> string) option"
  and read_elements :: "nat \<Rightarrow> string \<Rightarrow> pyval list \<Rightarrow> (pyval \<times> string) option"
where
  "read_value 0 s = None"
| "read_value (Suc n) s =
     (case s of
        [] \<Rightarrow> None
      | c # r \<Rightarrow>
          if c = CHR ''{'' then
            (case skip_ws r of
               [] \<Rightarrow> None
             | c' # r' \<Rightarrow>
                 if c' = CHR ''}'' then Some (PyDict [], r') else read_members n (c' # r') [])
          else if c = CHR ''['' then
            (case skip_ws r of
               [] \<Rightarrow> None
             | c' # r' \<Rightarrow>
                 if c' = CHR '']'' then Some (PyList [], r') else read_elements n (c' # r') [])
          else if c = CHR 0x22 then
            (case read_chars r [] of None \<Rightarrow> None | Some (str, r') \<Rightarrow> Some (PyStr str, r'))
          else if take 4 s = ''true'' then Some (PyBool True, drop 4 s)
          else if take 5 s = ''false'' then Some (PyBool False, drop 5 s)
          else if take 4 s = ''null'' then Some (PyNone, drop 4 s)
          else read_int s)"
| "read_members 0 s d = None"
| "read_members (Suc n) s d =
     (case s of
        [] \<Rightarrow> None
      | c # r \<Rightarrow>
          if c \<noteq> CHR 0x22 then None
          else
            (case read_chars r [] of
               None \<Rightarrow> None
             | Some (k, r1) \<Rightarrow>
                 (case skip_ws r1 of
                    [] \<Rightarrow> None
                  | c1 # r2 \<Rightarrow>
                      if c1 \<noteq> CHR '':'' then None
                      else
                        (case read_value n (skip_ws r2) of
                           None \<Rightarrow> None
                         | Some (v, r3) \<Rightarrow>
                             (case skip_ws r3 of
                                [] \<Rightarrow> None
                              | c2 # r4 \<Rightarrow>
                                  if c2 = CHR ''}'' then Some (PyDict (dict_set d k v), r4)
                                  else if c2 = CHR '','' then
                                    read_members n (skip_ws r4) (dict_set d k v)
                                  else None)))))"
| "read_elements 0 s xs = None"
| "read_elements (Suc n) s xs =
     (case read_value n s of
        None \<Rightarrow> None
      | Some (v, r) \<Rightarrow>
          (case skip_ws r of
             [] \<Rightarrow> None
           | c # r' \<Rightarrow>
               if c = CHR '']'' then Some (PyList (xs @ [v]), r')
               else if c = CHR '','' then read_elements n (skip_ws r') (xs @ [v])
               else None))"

definition json_loads :: "string \<Rightarrow> dict option" where
  "json_loads s =
     (case read_value (Suc (length s)) (skip_ws s) of
        Some (PyDict d, r) \<Rightarrow> if skip_ws r = [] then Some d else None
      | _ \<Rightarrow> None)"

section \<open>Result Extractor and \<^verbatim>\<open>analyze_company\<close>\<close>

text \<open>
  What the page shows, as the calls of \<^verbatim>\<open>st.error\<close>, \<^verbatim>\<open>st.warning\<close>, \<^verbatim>\<open>st.success\<close>,
  \<^verbatim>\<open>st.write\<close> and \<^verbatim>\<open>st.expander\<close> in their order. A \<^verbatim>\<open>st.write\<close> carries its fixed
  caption and the value written with it, an expander the two values of its label.
  Titles, headers and the side bar are fixed texts and are left out.
\<close>

datatype ui =
    St_error string
  | St_warning string
  | St_success string
  | St_write string pyval
  | St_expander pyval pyval

text \<open>
  Lines 125 to 127: \<^verbatim>\<open>start = content.find('{')\<close>, \<^verbatim>\<open>end = content.rfind('}') + 1\<close>,
  \<^verbatim>\<open>json_str = content[start:end]\<close>.
\<close>

definition json_str :: "string \<Rightarrow> string" where
  "json_str content =
     (let start = str_find content (CHR ''{'');
          stop = str_rfind content (CHR ''}'') + 1
      in py_slice content start stop)"

text \<open>The dict of lines 132 to 138, returned when anything in lines 125 to 128 raises.\<close>

definition fallback :: "string \<Rightarrow> pyval \<Rightarrow> dict" where
  "fallback company_name content =
     [(''company_name'', PyStr company_name),
      (''primary_sectors'', PyList [PyStr ''Other'']),
      (''secondary_sectors'', PyList []),
      (''reasoning'', content),
      (''confidence'', PyStr ''Low'')]"

text \<open>
  Lines 122 to 138, the inner \<^verbatim>\<open>try\<close>. The content of a chat completion is a string or
  \<^verbatim>\<open>None\<close>; on anything but a string \<^verbatim>\<open>content.find\<close> raises, and the bare \<^verbatim>\<open>except\<close>
  takes every exception to the fallback.
\<close>

definition extract_analysis :: "(string \<Rightarrow> dict option) \<Rightarrow> string \<Rightarrow> pyval \<Rightarrow> dict" where
  "extract_analysis loads company_name content =
     (case content of
        PyStr text \<Rightarrow>
          (case loads (json_str text) of
             Some analysis \<Rightarrow> analysis
           | None \<Rightarrow> fallback company_name content)
      | _ \<Rightarrow> fallback company_name content)"

text \<open>
  \<^verbatim>\<open>analyze_company(company_name, company_description, model)\<close>, lines 99 to 142. The
  outcome of lines 102 to 120 (building the prompt, the outbound call, reading the
  first choice's content) is the input \<open>reply\<close>: \<open>Inl cause\<close> when an exception with
  \<^verbatim>\<open>str(e) = cause\<close> is raised there, \<open>Inr content\<close> otherwise. The function returns
  \<^verbatim>\<open>None\<close> or the analysis, together with what it showed.
\<close>

definition analyze_company ::
  "(string \<Rightarrow> dict option) \<Rightarrow> string + pyval \<Rightarrow> string \<Rightarrow> string \<Rightarrow> string
     \<Rightarrow> dict option \<times> ui list" where
  "analyze_company loads reply company_name company_description model =
     (case reply of
        Inr content \<Rightarrow> (Some (extract_analysis loads company_name content), [])
      | Inl cause \<Rightarrow> (None, [St_error (''Error analyzing company: '' @ cause)]))"

section \<open>More Python operations\<close>






text \<open>
  \<^verbatim>\<open>sep.join(x)\<close>: \<^verbatim>\<open>x\<close> must be iterable (a list, a string, whose items are its
  characters, or a dict, whose items are its keys) and every item a string.
\<close>

fun join_strings :: "string \<Rightarrow> string list \<Rightarrow> string" where
  "join_strings sep [] = []"
| "join_strings sep [s] = s"
| "join_strings sep (s # t # ss) = s @ sep @ join_strings sep (t # ss)"

fun is_str :: "pyval \<Rightarrow> bool" where
  "is_str (PyStr s) = True"
| "is_str v = False"

fun str_of :: "pyval \<Rightarrow> string" where
  "str_of (PyStr s) = s"
| "str_of v = []"

fun join :: "string \<Rightarrow> pyval \<Rightarrow> exn + string" where
  "join sep (PyList xs) =
     (if list_all is_str xs then Inr (join_strings sep (map str_of xs)) else Inl TypeError)"
| "join sep (PyStr s) = Inr (join_strings sep (map (\<lambda>c. [c]) s))"
| "join sep (PyDict d) = Inr (join_strings sep (map fst d))"
| "join sep v = Inl TypeError"

section \<open>The page script\<close>




text \<open>
  Statements in sequence, each one showing something or raising: the run shows what
  the statements before the first exception showed.
\<close>

fun run_steps :: "(exn + ui list) list \<Rightarrow> ui list \<times> exn option" where
  "run_steps [] = ([], None)"
| "run_steps (Inl e # steps) = ([], Some e)"
| "run_steps (Inr shown # steps) =
     (case run_steps steps of (shown', raised) \<Rightarrow> (shown @ shown', raised))"






text \<open>
  Lines 207 to 218. The test of line 211 compares the company_name of every entry, in
  order, with the one of the stored analysis. Nothing is stored when line 212 or line
  216 raises.
\<close>

definition entry_name :: "dict \<Rightarrow> pyval" where
  "entry_name h = dict_get h ''company_name'' PyNone"



definition item_steps :: "dict \<Rightarrow> (exn + ui list) list" where
  "item_steps item =
     [(case dict_item item ''company_name'' of
         Inl e \<Rightarrow> Inl e
       | Inr name \<Rightarrow>
           (case dict_item item ''assigned_to'' of
              Inl e \<Rightarrow> Inl e
            | Inr assigned \<Rightarrow> Inr [St_expander name assigned])),
      (case dict_item item ''sectors'' of
         Inl e \<Rightarrow> Inl e
       | Inr sectors \<Rightarrow>
           (case join '', '' sectors of
              Inl e \<Rightarrow> Inl e
            | Inr joined \<Rightarrow> Inr [St_write ''**Sectors:**'' (PyStr joined)])),
      (case dict_item item ''confidence'' of
         Inl e \<Rightarrow> Inl e
       | Inr confidence \<Rightarrow> Inr [St_write ''**Confidence:**'' confidence])]"




section \<open>Predicates on the session\<close>



text \<open>
  An item of the history is rendered when none of its three statements raises:
  it has the four keys, and \<^verbatim>\<open>', '.join\<close> accepts its sectors, as it does every
  sequence of strings. \<open>item_shown\<close> is what the three statements show.
\<close>

definition renders :: "dict \<Rightarrow> bool" where
  "renders item = (snd (run_steps (item_steps item)) = None)"

definition item_shown :: "dict \<Rightarrow> ui list" where
  "item_shown item = fst (run_steps (item_steps item))"



section \<open>Properties of the resolver\<close>

lemma py_set_labels: "py_set (labels xs) = Inr (PyStr ` set xs)"
  by (simp add: labels_def list_all_iff)

lemma truthy_labels: "truthy (labels xs) = (xs \<noteq> [])"
  by (simp add: labels_def)

lemma PyStr_mem_image: "(PyStr l \<in> PyStr ` S) = (l \<in> S)"
  by auto

text \<open>
  C1. On every list of sector label strings the resolver returns one team member, by
  the six rules in their order: empty gives "To be assigned"; both K-12 and Higher
  Education give "Mitch"; else both Workforce Learning and Corporate Development give
  "Sam"; else K-12 or Higher Education gives "Mitch"; else Workforce Learning or
  Corporate Development gives "Sam"; else "To be assigned".
\<close>

theorem get_team_assignment_rules:
  "get_team_assignment (labels xs) =
     Inr (if xs = [] then ''To be assigned''
          else if ''K-12'' \<in> set xs \<and> ''Higher Education'' \<in> set xs then ''Mitch''
          else if ''Workforce Learning'' \<in> set xs \<and> ''Corporate Development'' \<in> set xs
            then ''Sam''
          else if ''K-12'' \<in> set xs \<or> ''Higher Education'' \<in> set xs then ''Mitch''
          else if ''Workforce Learning'' \<in> set xs \<or> ''Corporate Development'' \<in> set xs
            then ''Sam''
          else ''To be assigned'')"
  unfolding get_team_assignment_def
  by (simp add: py_set_labels truthy_labels PyStr_mem_image)

text \<open>
  C6. The resolver is order-independent: a list of sector labels and any permutation
  of it get the same team member.
\<close>

theorem get_team_assignment_permutation:
  assumes "mset xs = mset ys"
  shows "get_team_assignment (labels xs) = get_team_assignment (labels ys)"
proof -
  from assms have s: "set xs = set ys"
    by (rule mset_eq_setD)
  from assms have "length xs = length ys"
    by (rule mset_eq_length)
  then have e: "(xs = []) = (ys = [])"
    by auto
  show ?thesis
    unfolding get_team_assignment_def
    by (simp add: py_set_labels truthy_labels s e)
qed

theorem get_team_assignment_permutation_witness:
  "mset [''Other'', ''Workforce Learning'', ''K-12''] = mset [''K-12'', ''Other'', ''Workforce Learning'']
   \<and> get_team_assignment (labels [''Other'', ''Workforce Learning'', ''K-12'']) = Inr ''Mitch''
   \<and> get_team_assignment (labels [''K-12'', ''Other'', ''Workforce Learning'']) = Inr ''Mitch''"
proof -
  have p: "mset [''Other'', ''Workforce Learning'', ''K-12'']
             = mset [''K-12'', ''Other'', ''Workforce Learning'']"
    by (simp add: add_mset_commute)
  have "get_team_assignment (labels [''K-12'', ''Other'', ''Workforce Learning'']) = Inr ''Mitch''"
    by (simp add: get_team_assignment_def labels_def)
  with p get_team_assignment_permutation [OF p] show ?thesis
    by simp
qed

text \<open>
  C7. Rules 2 and 3 together are not redundant, because rule 3 is tried before rule 4.
  On every list of sector labels the resolver as written returns what the simplified
  resolver (rules 2 and 3 removed) returns exactly when the list does not hold both
  Workforce Learning and Corporate Development together with exactly one of K-12 and
  Higher Education; on the remaining lists the resolver as written returns "Sam" and
  the simplified resolver returns "Mitch".
\<close>

theorem get_team_assignment_simplified:
  "(if ''Workforce Learning'' \<in> set xs \<and> ''Corporate Development'' \<in> set xs
       \<and> ((''K-12'' \<in> set xs) \<noteq> (''Higher Education'' \<in> set xs))
    then get_team_assignment (labels xs) = Inr ''Sam'' \<and> simplified_resolver xs = ''Mitch''
    else get_team_assignment (labels xs) = Inr (simplified_resolver xs))"
  unfolding get_team_assignment_def simplified_resolver_def
  by (auto simp add: py_set_labels truthy_labels PyStr_mem_image)

theorem get_team_assignment_simplified_witness:
  "get_team_assignment (labels [''Higher Education'', ''K-12'', ''Workforce Learning''])
     = Inr (simplified_resolver [''Higher Education'', ''K-12'', ''Workforce Learning''])
   \<and> get_team_assignment (labels [''Higher Education'', ''Workforce Learning'', ''Corporate Development''])
     = Inr ''Sam''"
  using get_team_assignment_simplified [of "[''Higher Education'', ''K-12'', ''Workforce Learning'']"]
    get_team_assignment_simplified [of "[''Higher Education'', ''Workforce Learning'', ''Corporate Development'']"]
  by simp

text \<open>
  On the list K-12, Workforce Learning, Corporate Development the resolver answers "Sam" by
  rule 3, and the simplified resolver answers "Mitch": C7 as stated fails there.
\<close>

theorem get_team_assignment_rule3_counterexample:
  "get_team_assignment (labels [''K-12'', ''Workforce Learning'', ''Corporate Development''])
     = Inr ''Sam''
   \<and> simplified_resolver [''K-12'', ''Workforce Learning'', ''Corporate Development''] = ''Mitch''"
  by (simp add: get_team_assignment_def simplified_resolver_def labels_def)

text \<open>
  C10. Matching is exact string equality: a list that holds none of the four label
  strings exactly, such as ["k-12"] or ["K-12 "], gets "To be assigned".
\<close>

theorem get_team_assignment_exact_match:
  assumes "''K-12'' \<notin> set xs" and "''Higher Education'' \<notin> set xs"
    and "''Workforce Learning'' \<notin> set xs" and "''Corporate Development'' \<notin> set xs"
  shows "get_team_assignment (labels xs) = Inr ''To be assigned''"
  unfolding get_team_assignment_def using assms
  by (simp add: py_set_labels truthy_labels PyStr_mem_image)

theorem get_team_assignment_exact_match_witness:
  "get_team_assignment (labels [''k-12'']) = Inr ''To be assigned''
   \<and> get_team_assignment (labels [''K-12 '']) = Inr ''To be assigned''"
  using get_team_assignment_exact_match [of "[''k-12'']"]
    get_team_assignment_exact_match [of "[''K-12 '']"]
  by simp

section \<open>Properties of the Result Extractor\<close>

lemma str_find_first:
  assumes "c \<notin> set pre"
  shows "str_find (pre @ c # rest) c = int (length pre)"
proof -
  have "takeWhile (\<lambda>x. x \<noteq> c) (pre @ c # rest) = pre"
    using assms by (auto simp add: takeWhile_tail)
  then show ?thesis
    by (simp add: str_find_def)
qed

lemma str_rfind_last:
  assumes "c \<notin> set suf"
  shows "str_rfind (xs @ c # suf) c = int (length xs)"
proof -
  have "takeWhile (\<lambda>x. x \<noteq> c) (rev suf @ c # rev xs) = rev suf"
    using assms by (auto simp add: takeWhile_tail)
  then show ?thesis
    by (simp add: str_rfind_def)
qed

lemma py_slice_nat:
  assumes "a \<le> length xs" and "b \<le> length xs"
  shows "py_slice xs (int a) (int b) = take (b - a) (drop a xs)"
  using assms by (simp add: py_slice_def slice_index_def)

lemma json_str_span:
  assumes "CHR ''{'' \<notin> set pre" and "CHR ''}'' \<notin> set suf"
  shows "json_str (pre @ CHR ''{'' # body @ CHR ''}'' # suf) = CHR ''{'' # body @ [CHR ''}'']"
proof -
  let ?text = "pre @ CHR ''{'' # body @ CHR ''}'' # suf"
  have f: "str_find ?text (CHR ''{'') = int (length pre)"
    using assms(1) by (rule str_find_first)
  have "str_rfind ((pre @ CHR ''{'' # body) @ CHR ''}'' # suf) (CHR ''}'') = int (length (pre @ CHR ''{'' # body))"
    using assms(2) by (rule str_rfind_last)
  then have r: "str_rfind ?text (CHR ''}'') + 1 = int (length pre + length body + 2)"
    by simp
  have "py_slice ?text (int (length pre)) (int (length pre + length body + 2))
          = take (length pre + length body + 2 - length pre) (drop (length pre) ?text)"
    by (rule py_slice_nat) simp_all
  then show ?thesis
    unfolding json_str_def Let_def f r by simp
qed

lemma slice_index_minus1: "slice_index (- 1) n = n - 1"
  by (simp add: slice_index_def)

lemma slice_index_nat: "m \<le> n \<Longrightarrow> slice_index (int m) n = m"
  by (simp add: slice_index_def)

lemma json_str_no_open:
  assumes "CHR ''{'' \<notin> set s"
  shows "json_str s = [] \<or> json_str s = ''}''"
proof (cases "CHR ''}'' \<in> set s")
  case False
  then show ?thesis
    by (simp add: json_str_def str_rfind_def py_slice_def slice_index_def)
next
  case True
  then have ne: "s \<noteq> []"
    by auto
  let ?tw = "takeWhile (\<lambda>x. x \<noteq> CHR ''}'') (rev s)"
  let ?k = "length ?tw"
  have "dropWhile (\<lambda>x. x \<noteq> CHR ''}'') (rev s) \<noteq> []"
    using True by (auto simp add: dropWhile_eq_Nil_conv)
  moreover have "?k + length (dropWhile (\<lambda>x. x \<noteq> CHR ''}'') (rev s)) = length (rev s)"
    by (metis length_append takeWhile_dropWhile_id)
  ultimately have le: "?k < length s"
    by (cases "dropWhile (\<lambda>x. x \<noteq> CHR ''}'') (rev s)") auto
  then have "str_rfind s (CHR ''}'') + 1 = int (length s - ?k)"
    using True by (simp add: str_rfind_def)
  moreover have "str_find s (CHR ''{'') = - 1"
    using assms by (simp add: str_find_def)
  ultimately have js: "json_str s = take (length s - ?k - (length s - 1)) (drop (length s - 1) s)"
    by (simp add: json_str_def py_slice_def slice_index_minus1 slice_index_nat Let_def)
  show ?thesis
  proof (cases "?tw = []")
    case True
    then have "hd (rev s) = CHR ''}''"
      using ne by (cases "rev s") (auto split: if_splits)
    then have l: "last s = CHR ''}''"
      using ne by (simp add: hd_rev)
    have "drop (length s - 1) s = [last s]"
      using ne by (metis append_butlast_last_id append_eq_conv_conj length_butlast)
    moreover have "length s - (length s - 1) = 1"
      using ne by (cases s) simp_all
    ultimately show ?thesis
      using l True js by simp
  next
    case False
    then have "0 < ?k"
      by simp
    then have "length s - ?k - (length s - 1) = 0"
      by arith
    with js show ?thesis
      by simp
  qed
qed

lemma json_str_no_close:
  assumes "CHR ''}'' \<notin> set s"
  shows "json_str s = []"
  using assms by (simp add: json_str_def str_rfind_def py_slice_def slice_index_def)

lemma json_str_crossed:
  assumes "CHR ''{'' \<in> set s" and "str_rfind s (CHR ''}'') < str_find s (CHR ''{'')"
  shows "json_str s = []"
proof -
  let ?f = "length (takeWhile (\<lambda>x. x \<noteq> CHR ''{'') s)"
  define r where "r = nat (str_rfind s (CHR ''}'') + 1)"
  have f: "str_find s (CHR ''{'') = int ?f"
    using assms(1) by (simp add: str_find_def)
  have fl: "?f \<le> length s"
    by (rule length_takeWhile_le)
  have "length (takeWhile (\<lambda>x. x \<noteq> CHR ''}'') (rev s)) \<le> length s"
    using length_takeWhile_le [of "\<lambda>x. x \<noteq> CHR ''}''" "rev s"] by simp
  then have "- 1 \<le> str_rfind s (CHR ''}'')"
    by (simp add: str_rfind_def)
  then have r: "str_rfind s (CHR ''}'') + 1 = int r"
    by (simp add: r_def)
  have rf: "r \<le> ?f"
    using assms(2) f r by linarith
  have "py_slice s (int ?f) (int r) = take (r - ?f) (drop ?f s)"
    using fl rf by (intro py_slice_nat) auto
  with rf have "py_slice s (int ?f) (int r) = []"
    by simp
  then show ?thesis
    by (simp add: json_str_def f r)
qed

text \<open>
  C2. When the raw response text holds no pair of braces (no opening brace, no closing
  brace, or the last closing brace before the first opening brace), or when the
  sliced span fails to parse, \<^verbatim>\<open>analyze_company\<close> returns the synthesized result:
  primary_sectors ["Other"], secondary_sectors [], reasoning the full raw text,
  confidence "Low". It returns it as a value: no error is raised and none is shown.
  The two facts about the library are that it rejects the empty text and a lone
  closing brace, the only slices the code can take when there is no pair.
\<close>

theorem analyze_company_fallback:
  assumes "loads [] = None" and "loads ''}'' = None"
    and "CHR ''{'' \<notin> set raw \<or> CHR ''}'' \<notin> set raw
         \<or> str_rfind raw (CHR ''}'') < str_find raw (CHR ''{'')
         \<or> loads (json_str raw) = None"
  shows "analyze_company loads (Inr (PyStr raw)) company_name company_description model
           = (Some [(''company_name'', PyStr company_name),
                    (''primary_sectors'', PyList [PyStr ''Other'']),
                    (''secondary_sectors'', PyList []),
                    (''reasoning'', PyStr raw),
                    (''confidence'', PyStr ''Low'')], [])"
proof -
  have "loads (json_str raw) = None"
  proof -
    have "json_str raw = [] \<or> json_str raw = ''}'' \<or> loads (json_str raw) = None"
      using assms(3) json_str_no_open [of raw] json_str_no_close [of raw]
        json_str_crossed [of raw]
      by (cases "CHR ''{'' \<in> set raw") auto
    with assms(1,2) show ?thesis
      by auto
  qed
  then show ?thesis
    by (simp add: analyze_company_def extract_analysis_def fallback_def)
qed

theorem analyze_company_fallback_witness:
  \<open>json_loads [] = None \<and> json_loads ''}'' = None
   \<and> json_loads (json_str ''{not valid json}'') = None
   \<and> analyze_company json_loads (Inr (PyStr ''no braces here'')) ''Acme'' [] ''openai/gpt-4o''
       = (Some [(''company_name'', PyStr ''Acme''),
                (''primary_sectors'', PyList [PyStr ''Other'']),
                (''secondary_sectors'', PyList []),
                (''reasoning'', PyStr ''no braces here''),
                (''confidence'', PyStr ''Low'')], [])
   \<and> analyze_company json_loads (Inr (PyStr ''{not valid json}'')) ''Acme'' [] ''openai/gpt-4o''
       = (Some [(''company_name'', PyStr ''Acme''),
                (''primary_sectors'', PyList [PyStr ''Other'']),
                (''secondary_sectors'', PyList []),
                (''reasoning'', PyStr ''{not valid json}''),
                (''confidence'', PyStr ''Low'')], [])\<close>
proof -
  have e: "json_loads [] = None"
    by code_simp
  have c: "json_loads ''}'' = None"
    by code_simp
  have m: "json_loads (json_str ''{not valid json}'') = None"
    by code_simp
  have n: "CHR ''{'' \<notin> set ''no braces here''"
    by simp
  show ?thesis
    using e c m
      analyze_company_fallback [of json_loads "''no braces here''" "''Acme''" "[]" "''openai/gpt-4o''", OF e c]
      analyze_company_fallback [of json_loads "''{not valid json}''" "''Acme''" "[]" "''openai/gpt-4o''", OF e c]
    using n by blast
qed

text \<open>
  C3. A raw response text made of a prefix without an opening brace, a JSON object
  that the library parses, and a suffix without a closing brace (in particular
  brace-free prose on both sides): the slice from the first opening brace to the
  last closing brace is the object's text, and \<^verbatim>\<open>analyze_company\<close> returns the parsed
  object as the library gave it.
\<close>

theorem analyze_company_parsed:
  assumes "CHR ''{'' \<notin> set pre" and "CHR ''}'' \<notin> set suf"
    and "loads (CHR ''{'' # body @ ''}'') = Some obj"
  shows "json_str (pre @ CHR ''{'' # body @ CHR ''}'' # suf) = CHR ''{'' # body @ ''}''
         \<and> analyze_company loads (Inr (PyStr (pre @ CHR ''{'' # body @ CHR ''}'' # suf)))
              company_name company_description model = (Some obj, [])"
  using assms
  by (simp add: analyze_company_def extract_analysis_def json_str_span)

theorem analyze_company_parsed_witness:
  \<open>analyze_company json_loads
      (Inr (PyStr ''prefix {"company_name":"Acme","primary_sectors":["K-12"],"secondary_sectors":[],"reasoning":"x","confidence":"High"} suffix''))
      ''Acme'' [] ''openai/gpt-4o''
    = (Some [(''company_name'', PyStr ''Acme''),
             (''primary_sectors'', PyList [PyStr ''K-12'']),
             (''secondary_sectors'', PyList []),
             (''reasoning'', PyStr ''x''),
             (''confidence'', PyStr ''High'')], [])\<close>
proof -
  have p: \<open>json_loads (CHR ''{'' # ''"company_name":"Acme","primary_sectors":["K-12"],"secondary_sectors":[],"reasoning":"x","confidence":"High"'' @ ''}'')
      = Some [(''company_name'', PyStr ''Acme''),
             (''primary_sectors'', PyList [PyStr ''K-12'']),
             (''secondary_sectors'', PyList []),
             (''reasoning'', PyStr ''x''),
             (''confidence'', PyStr ''High'')]\<close>
    by code_simp
  have a: "CHR ''{'' \<notin> set ''prefix ''"
    by simp
  have b: "CHR ''}'' \<notin> set '' suffix''"
    by simp
  show ?thesis
    using a b p
      analyze_company_parsed [where loads = json_loads and pre = "''prefix ''"
        and suf = "'' suffix''" and company_name = "''Acme''" and company_description = "[]"
        and model = "''openai/gpt-4o''"
        and body = \<open>''"company_name":"Acme","primary_sectors":["K-12"],"secondary_sectors":[],"reasoning":"x","confidence":"High"''\<close>]
    by simp
qed

text \<open>
  C9. When the extraction fails on a raw response text, the company_name of the
  result is the name the caller passed to \<^verbatim>\<open>analyze_company\<close>, whatever the text holds.
\<close>

theorem fallback_company_name:
  assumes "loads (json_str raw) = None"
  shows "map_option (\<lambda>analysis. dict_get analysis ''company_name'' PyNone)
           (fst (analyze_company loads (Inr (PyStr raw)) company_name company_description model))
         = Some (PyStr company_name)"
  using assms
  by (simp add: analyze_company_def extract_analysis_def fallback_def dict_get_def)

theorem fallback_company_name_witness:
  \<open>json_loads (json_str ''{"company_name": "Globex", unfinished'') = None
   \<and> map_option (\<lambda>analysis. dict_get analysis ''company_name'' PyNone)
        (fst (analyze_company json_loads (Inr (PyStr ''{"company_name": "Globex", unfinished''))
               ''Acme'' [] ''openai/gpt-4o''))
      = Some (PyStr ''Acme'')\<close>
proof -
  have p: \<open>json_loads (json_str ''{"company_name": "Globex", unfinished'') = None\<close>
    by code_simp
  show ?thesis
    using p fallback_company_name [where loads = json_loads
        and raw = \<open>''{"company_name": "Globex", unfinished''\<close>
        and company_name = "''Acme''" and company_description = "[]" and model = "''openai/gpt-4o''"]
    by simp
qed

section \<open>Properties of the session history\<close>






lemma entry_name_new [simp]:
  "entry_name ((''company_name'', n) # rest) = n"
  by (simp add: entry_name_def dict_get_def)




lemma run_steps_Inr:
  "run_steps (Inr shown # steps) = (shown @ fst (run_steps steps), snd (run_steps steps))"
  by (simp split: prod.splits)

















section \<open>Properties of the history display\<close>



lemma string_sectors_render:
  assumes "list_all is_str xs"
  shows "renders [(''company_name'', name), (''sectors'', PyList xs),
                  (''assigned_to'', assigned), (''confidence'', confidence)]"
    and "item_shown [(''company_name'', name), (''sectors'', PyList xs),
                     (''assigned_to'', assigned), (''confidence'', confidence)]
           = [St_expander name assigned,
              St_write ''**Sectors:**'' (PyStr (join_strings '', '' (map str_of xs))),
              St_write ''**Confidence:**'' confidence]"
  using assms by (simp_all add: renders_def item_shown_def item_steps_def dict_item_def)





end
